theory Spec2Isabelle
  imports
    Main
    "HOL-Library.List_Lexorder"
    "HOL-Library.Char_ord"
    "HOL-Library.Multiset"
begin

section \<open>LexiAI (app.py): vocabulary store and tool-dispatch loop\<close>

text \<open>
  The development embeds the tool functions of \<^verbatim>\<open>app.py\<close> (section 4 of the file),
  the sidebar helpers (section 5) and the chat turn \<^verbatim>\<open>handle_chat_input\<close> together with
  \<^verbatim>\<open>handle_random_vocabulary\<close> (section 6).

  Conventions.
  \<^item> Text is a \<^typ>\<open>string\<close>, read as the UTF-8 bytes of the Python \<^verbatim>\<open>str\<close>.
  \<^item> The SQLite table \<^verbatim>\<open>memory\<close> is the list of its rows in rowid order, which is the
    order of insertion: the table has no key and no index, and the only writers are the
    \<^verbatim>\<open>INSERT\<close> of \<^verbatim>\<open>f_memory_update\<close> and the \<^verbatim>\<open>DELETE\<close> of
    \<^verbatim>\<open>delete_vocabulary\<close>.
  \<^item> What the program reads from outside (the clock behind \<^verbatim>\<open>datetime('now')\<close>, the
    draws of \<^verbatim>\<open>RANDOM()\<close>, the answers of the language model, the outcome of the
    argument validation done by the tool wrapper) is passed in explicitly.
  \<^item> An exception is a value; a function that can raise returns \<open>exn + 'a\<close> with
    \<open>Inl\<close> for the exception.
\<close>

subsection \<open>Text\<close>

text \<open>
  \<^verbatim>\<open>str.lower()\<close>. On the letters A to Z it is the table below; every other byte is kept.
  Python also lowers cased letters outside ASCII, which this table does not cover: the
  model of \<open>lower\<close> is exact on ASCII text.
\<close>

definition lower_char :: "char \<Rightarrow> char" where
  "lower_char c =
     (case map_of (zip ''ABCDEFGHIJKLMNOPQRSTUVWXYZ'' ''abcdefghijklmnopqrstuvwxyz'') c of
        Some d \<Rightarrow> d
      | None \<Rightarrow> c)"

definition lower :: "string \<Rightarrow> string" where
  "lower s = map lower_char s"

text \<open>\<^verbatim>\<open>sep.join(xs)\<close>.\<close>

fun join :: "string \<Rightarrow> string list \<Rightarrow> string" where
  "join sep [] = []"
| "join sep [x] = x"
| "join sep (x # y # ys) = x @ sep @ join sep (y # ys)"

subsection \<open>Exceptions\<close>

text \<open>An exception carries its class name and the text that \<^verbatim>\<open>str(e)\<close> gives.\<close>

datatype exn = Exn (exn_class: string) (exn_str: string)

subsection \<open>The table \<^verbatim>\<open>memory\<close>\<close>

text \<open>
  \<^verbatim>\<open>CREATE TABLE memory (kata TEXT, arti TEXT, inserted_at TEXT DEFAULT (datetime('now')))\<close>.
  \<^verbatim>\<open>datetime('now')\<close> is the text \<^verbatim>\<open>YYYY-MM-DD HH:MM:SS\<close>: it has a resolution of one
  second. SQLite compares \<^verbatim>\<open>TEXT\<close> byte by byte, which is the lexicographic order on
  \<^typ>\<open>string\<close>.
\<close>

record row =
  kata :: string
  arti :: string
  inserted_at :: string

text \<open>
  A Python \<^verbatim>\<open>int\<close> bound to a statement parameter must fit SQLite's 64-bit signed
  integer; the \<^verbatim>\<open>sqlite3\<close> module raises \<^verbatim>\<open>OverflowError\<close> otherwise.
\<close>

definition in_int64 :: "int \<Rightarrow> bool" where
  "in_int64 n \<longleftrightarrow> - (2 ^ 63) \<le> n \<and> n < 2 ^ 63"

definition overflow_error :: exn where
  "overflow_error = Exn ''OverflowError'' ''Python int too large to convert to SQLite INTEGER''"

text \<open>\<^verbatim>\<open>LIMIT n\<close>: a negative \<open>n\<close> means no upper bound on the number of rows.\<close>

definition sql_limit :: "int \<Rightarrow> 'a list \<Rightarrow> 'a list" where
  "sql_limit n xs = (if n < 0 then xs else take (nat n) xs)"

text \<open>
  \<^verbatim>\<open>f_memory_update(word, meaning)\<close>, with \<open>now\<close> the value of \<^verbatim>\<open>datetime('now')\<close> when
  the \<^verbatim>\<open>INSERT\<close> runs. The \<^verbatim>\<open>SELECT\<close> looks for \<^verbatim>\<open>word.lower()\<close>; the \<^verbatim>\<open>INSERT\<close>
  binds \<^verbatim>\<open>word\<close> itself. The result is the returned text and the table afterwards.
\<close>

definition f_memory_update :: "string \<Rightarrow> string \<Rightarrow> string \<Rightarrow> row list \<Rightarrow> string \<times> row list" where
  "f_memory_update now word meaning db =
     (let exists = list_ex (\<lambda>r. kata r = lower word) db in
      if exists then
        (''Kata '' @ [CHR 0x27] @ word @ [CHR 0x27] @ '' sudah ada di database, tidak ditambahkan ulang.'', db)
      else
        (''Berhasil menambahkan '' @ [CHR 0x27] @ word @ [CHR 0x27] @ '' ('' @ meaning @ '') ke kosakata Anda'',
         db @ [\<lparr>kata = word, arti = meaning, inserted_at = now\<rparr>]))"

text \<open>
  \<^verbatim>\<open>ORDER BY RANDOM()\<close>: SQLite draws one 64-bit integer per row and sorts the rows by it,
  ascending. \<open>rnd i\<close> is the draw for the \<open>i\<close>-th row of the scan.
\<close>

definition order_by_random :: "(nat \<Rightarrow> int) \<Rightarrow> row list \<Rightarrow> row list" where
  "order_by_random rnd db = map snd (sort_key fst (zip (map rnd [0..<length db]) db))"

definition bullet :: "string \<times> string \<Rightarrow> string" where
  "bullet wm = (case wm of (w, m) \<Rightarrow> ''- '' @ w @ '' ('' @ m @ '')'')"

definition empty_message :: string where
  "empty_message = ''Database kosong.''"

definition query_header :: string where
  "query_header = ''Kosakata acak yang tersimpan:\<newline>''"

text \<open>
  \<^verbatim>\<open>f_memory_query(rows_query)\<close>:
  \<^verbatim>\<open>SELECT kata, arti FROM memory ORDER BY RANDOM() LIMIT ?\<close>, then the fixed text when
  \<^verbatim>\<open>results\<close> is empty and the header with one bullet per fetched row otherwise.
\<close>

definition query_rows :: "(nat \<Rightarrow> int) \<Rightarrow> int \<Rightarrow> row list \<Rightarrow> (string \<times> string) list" where
  "query_rows rnd rows_query db =
     map (\<lambda>r. (kata r, arti r)) (sql_limit rows_query (order_by_random rnd db))"

definition f_memory_query :: "(nat \<Rightarrow> int) \<Rightarrow> int \<Rightarrow> row list \<Rightarrow> exn + string" where
  "f_memory_query rnd rows_query db =
     (if \<not> in_int64 rows_query then Inl overflow_error
      else
        let results = query_rows rnd rows_query db in
        if results = [] then Inr empty_message
        else Inr (query_header @ join ''\<newline>'' (map bullet results)))"

text \<open>\<^verbatim>\<open>get_vocabulary_count()\<close>: \<^verbatim>\<open>SELECT COUNT(*) FROM memory\<close>.\<close>

definition get_vocabulary_count :: "row list \<Rightarrow> int" where
  "get_vocabulary_count db = int (length db)"

text \<open>
  \<^verbatim>\<open>ORDER BY inserted_at DESC\<close>, as an insertion sort on the key. SQL leaves the order of
  rows with equal keys open; here they stay in table order. The theorems below speak
  about the keys only.
\<close>

fun insert_desc :: "row \<Rightarrow> row list \<Rightarrow> row list" where
  "insert_desc r [] = [r]"
| "insert_desc r (x # xs) =
     (if inserted_at x \<le> inserted_at r then r # x # xs else x # insert_desc r xs)"

definition order_by_inserted_at_desc :: "row list \<Rightarrow> row list" where
  "order_by_inserted_at_desc db = foldr insert_desc db []"

text \<open>
  \<^verbatim>\<open>get_recent_vocabulary(limit)\<close>:
  \<^verbatim>\<open>SELECT kata, arti, inserted_at FROM memory ORDER BY inserted_at DESC LIMIT ?\<close>.
\<close>

definition get_recent_vocabulary :: "int \<Rightarrow> row list \<Rightarrow> exn + row list" where
  "get_recent_vocabulary limit db =
     (if \<not> in_int64 limit then Inl overflow_error
      else Inr (sql_limit limit (order_by_inserted_at_desc db)))"

text \<open>
  The two readings of "sorted by insertion time, most recent first": no row is followed by
  a later one, and every row is followed by earlier ones only.
\<close>

definition descending :: "row list \<Rightarrow> bool" where
  "descending rs = sorted_wrt (\<lambda>a b. inserted_at b \<le> inserted_at a) rs"

definition strictly_descending :: "row list \<Rightarrow> bool" where
  "strictly_descending rs = sorted_wrt (\<lambda>a b. inserted_at b < inserted_at a) rs"

text \<open>
  \<^verbatim>\<open>delete_vocabulary(word)\<close>: \<^verbatim>\<open>DELETE FROM memory WHERE kata = ?\<close> with \<^verbatim>\<open>word\<close> bound
  as it is given. The result is the returned text and the table afterwards.
\<close>

definition delete_vocabulary :: "string \<Rightarrow> row list \<Rightarrow> string \<times> row list" where
  "delete_vocabulary word db =
     (''Kata '' @ [CHR 0x27] @ word @ [CHR 0x27] @ '' berhasil dihapus'',
      filter (\<lambda>r. \<not> (kata r = word)) db)"

subsection \<open>Fixed texts\<close>

text \<open>\<^verbatim>\<open>SYSTEM_PROMPT\<close>, byte for byte as the file has it.\<close>

definition SYSTEM_PROMPT :: string where
  \<open>SYSTEM_PROMPT =
     ''\<newline>'' @
     ''You are LexiAI, a personal AI language learning assistant designed to help users master Japanese.\<newline>'' @
     ''You act as a bilingual tutor who explains Japanese vocabulary, grammar, and nuance in both Indonesian and Japanese.\<newline>'' @
     ''Your goal is to help the user understand, retain, and apply new words naturally through contextual learning.\<newline>'' @
     ''\<newline>'' @
     ''- When explaining vocabulary, provide hiragana, and also meaning.\<newline>'' @
     ''- Keep explanations concise but informative, focusing on practical understanding.\<newline>'' @
     ''- Avoid giving full sentence translations unless requested.\<newline>'' @
     ''- Always provide at least one example sentence in Japanese with its Indonesian meaning.\<newline>'' @
     ''- Track newly learned words internally for memory updates.\<newline>'' @
     ''- Encourage active recall and self-reflection using short follow-up questions like '' @ [CHR 0xC3, CHR 0xA2, CHR 0xE2, CHR 0x82, CHR 0xAC, CHR 0xC5, CHR 0x93] @ ''Apakah anda mengerti?'' @ [CHR 0xC3, CHR 0xA2, CHR 0xE2, CHR 0x82, CHR 0xAC] @ '' and something else.\<newline>'' @
     ''\<newline>'' @
     ''When the user is about requests to:\<newline>'' @
     ''- "Add this word to my vocabulary", "Tambahkan kata inu ke dalam vocabulary" '' @ [CHR 0xC3, CHR 0xA2, CHR 0xE2, CHR 0x80, CHR 0xA0, CHR 0xE2, CHR 0x80, CHR 0x99] @ '' call function `f_memory_update`\<newline>'' @
     ''- For vocabulary/kamus search (e.g., "What is X in Japanese?", "Apa bahasa jepang nya sarapan?, "Apa arti asagohan?", "Apa bahasa Jepang nya kelas dari kamus?") '' @ [CHR 0xC3, CHR 0xA2, CHR 0xE2, CHR 0x80, CHR 0xA0, CHR 0xE2, CHR 0x80, CHR 0x99] @ '' call function `f_lookup_dictionary`\<newline>'' @
     ''- To review learned words (e.g., "Show me my vocabulary", "Apa saja kosakata yang sudah anda simpan?", "Apa saja kosakata yang sudah saya simpan?") '' @ [CHR 0xC3, CHR 0xA2, CHR 0xE2, CHR 0x80, CHR 0xA0, CHR 0xE2, CHR 0x80, CHR 0x99] @ '' call function `f_memory_query`\<newline>''\<close>

text \<open>The greeting that opens every conversation.\<close>

definition greeting :: string where
  \<open>greeting =
     ''Halo! Saya LexiAI, asisten belajar bahasa Jepang pribadi Anda.\<newline>'' @
     ''\<newline>'' @
     ''Saya memiliki tiga fitur utama untuk membantu Anda belajar bahasa Jepang secara efektif:\<newline>'' @
     ''1. **Menambahkan Kosakata Baru:** Anda dapat menambahkan kata baru beserta artinya ke daftar kosakata Anda.\<newline>'' @
     ''2. **Mencari Arti Kata atau Terjemahan:** Saya bisa menampilkan arti kata, terjemahan, dan informasi terkait kosakata.\<newline>'' @
     ''3. **Meninjau Kosakata yang Sudah Dipelajari:** Anda bisa meminta saya menampilkan kembali kata-kata yang telah ditambahkan.\<newline>'' @
     ''\<newline>'' @
     ''Apa yang ingin Anda lakukan hari ini?''\<close>

text \<open>The heading that \<^verbatim>\<open>handle_random_vocabulary\<close> puts before the tool's answer.\<close>

definition random_heading :: string where
  \<open>random_heading =
     ''**'' @ [CHR 0xC4, CHR 0x9F, CHR 0xC5, CHR 0xB8, CHR 0xC2, CHR 0xB2] @ '' Kosakata Acak dari Database Anda:**'' @ ''\<newline>\<newline>''\<close>

subsection \<open>Messages and tool calls\<close>

text \<open>
  A tool call as the model service returns it: \<^verbatim>\<open>call["name"]\<close>, \<^verbatim>\<open>call["args"]\<close> and
  \<^verbatim>\<open>call["id"]\<close>. The loop accepts the arguments either as a mapping or as a \<^verbatim>\<open>str\<close>
  that it parses with \<^verbatim>\<open>json.loads\<close>; \<open>'a\<close> is the type of argument mappings.
\<close>

datatype 'a raw_args = ArgsStr string | ArgsDict 'a

datatype 'a tool_call = ToolCall (call_name: string) (call_args: "'a raw_args") (call_id: string)

text \<open>
  \<^verbatim>\<open>SystemMessage(content)\<close>, \<^verbatim>\<open>HumanMessage(content)\<close>,
  \<^verbatim>\<open>AIMessage(content, tool_calls)\<close> and \<^verbatim>\<open>ToolMessage(content, tool_call_id)\<close>.
\<close>

datatype 'a message =
    SystemMessage string
  | HumanMessage string
  | AIMessage string "'a tool_call list"
  | ToolMessage string string

fun is_system :: "'a message \<Rightarrow> bool" where
  "is_system (SystemMessage c) = True"
| "is_system m = False"

fun is_tool_result :: "'a message \<Rightarrow> bool" where
  "is_tool_result (ToolMessage c i) = True"
| "is_tool_result m = False"

fun tool_call_id :: "'a message \<Rightarrow> string option" where
  "tool_call_id (ToolMessage c i) = Some i"
| "tool_call_id m = None"

subsection \<open>The outside world during one turn\<close>

text \<open>
  \<^item> \<open>llm_invoke\<close>: \<^verbatim>\<open>llm_with_tools.invoke(messages)\<close>; it answers with the content and
    the tool calls of an \<^verbatim>\<open>AIMessage\<close>, or raises.
  \<^item> \<open>json_loads\<close>: \<^verbatim>\<open>json.loads\<close> on argument text.
  \<^item> \<open>update_schema\<close>, \<open>query_schema\<close>: what the tool wrapper's validation of the
    arguments against the signatures \<^verbatim>\<open>(word: str, meaning: str)\<close> and
    \<^verbatim>\<open>(rows_query: int = 5)\<close> gives: the parameters, or an exception.
  \<^item> \<open>lookup_dictionary\<close>: \<^verbatim>\<open>f_lookup_dictionary.invoke(args)\<close>, which reads only the
    similarity index and the model service.
  \<^item> \<open>datetime_now i\<close>, \<open>sql_random i\<close>: the clock and the random draws seen by the
    \<open>i\<close>-th tool call of the turn.
\<close>

record 'a env =
  llm_invoke :: "'a message list \<Rightarrow> exn + string \<times> 'a tool_call list"
  json_loads :: "string \<Rightarrow> exn + 'a"
  update_schema :: "'a \<Rightarrow> exn + string \<times> string"
  query_schema :: "'a \<Rightarrow> exn + int"
  lookup_dictionary :: "'a \<Rightarrow> exn + string"
  datetime_now :: "nat \<Rightarrow> string"
  sql_random :: "nat \<Rightarrow> nat \<Rightarrow> int"

subsection \<open>The dispatch loop\<close>

definition known_tools :: "string list" where
  "known_tools = [''f_memory_update'', ''f_memory_query'', ''f_lookup_dictionary'']"

definition unknown_tool_message :: "string \<Rightarrow> string" where
  "unknown_tool_message tool_name = ''Tool tidak dikenal: '' @ tool_name"

definition error_msg :: "string \<Rightarrow> exn \<Rightarrow> string" where
  "error_msg tool_name e = ''Error saat menjalankan tool '' @ tool_name @ '': '' @ exn_str e"

text \<open>
  \<^verbatim>\<open>json.loads(call["args"]) if isinstance(call["args"], str) else call["args"]\<close>.
\<close>

definition parse_args :: "'a env \<Rightarrow> 'a tool_call \<Rightarrow> exn + 'a" where
  "parse_args env call =
     (case call_args call of ArgsStr s \<Rightarrow> json_loads env s | ArgsDict d \<Rightarrow> Inr d)"

text \<open>
  The body of the \<^verbatim>\<open>try\<close> for the \<open>i\<close>-th call: the arguments are parsed first, then the
  name is compared with the three tool names in turn. The result is the tool's answer
  and the table afterwards, or the exception raised on the way.
\<close>

definition try_body :: "'a env \<Rightarrow> nat \<Rightarrow> 'a tool_call \<Rightarrow> row list \<Rightarrow> exn + string \<times> row list" where
  "try_body env i call db =
     (case parse_args env call of
        Inl e \<Rightarrow> Inl e
      | Inr args \<Rightarrow>
          if call_name call = ''f_memory_update'' then
            (case update_schema env args of
               Inl e \<Rightarrow> Inl e
             | Inr (word, meaning) \<Rightarrow> Inr (f_memory_update (datetime_now env i) word meaning db))
          else if call_name call = ''f_memory_query'' then
            (case query_schema env args of
               Inl e \<Rightarrow> Inl e
             | Inr rows_query \<Rightarrow>
                 (case f_memory_query (sql_random env i) rows_query db of
                    Inl e \<Rightarrow> Inl e
                  | Inr result \<Rightarrow> Inr (result, db)))
          else if call_name call = ''f_lookup_dictionary'' then
            (case lookup_dictionary env args of
               Inl e \<Rightarrow> Inl e
             | Inr result \<Rightarrow> Inr (result, db))
          else Inr (unknown_tool_message (call_name call), db))"

text \<open>
  One iteration of \<^verbatim>\<open>for call in ai_msg.tool_calls\<close>: the \<^verbatim>\<open>try\<close> with its
  \<^verbatim>\<open>except Exception\<close>. It yields the \<^verbatim>\<open>ToolMessage\<close> appended to \<^verbatim>\<open>tool_results\<close>
  and the table afterwards.
\<close>

definition exec_call :: "'a env \<Rightarrow> nat \<Rightarrow> 'a tool_call \<Rightarrow> row list \<Rightarrow> 'a message \<times> row list" where
  "exec_call env i call db =
     (case try_body env i call db of
        Inr (result, db') \<Rightarrow> (ToolMessage result (call_id call), db')
      | Inl e \<Rightarrow> (ToolMessage (error_msg (call_name call) e) (call_id call), db))"

fun run_tool_calls :: "'a env \<Rightarrow> nat \<Rightarrow> 'a tool_call list \<Rightarrow> row list \<Rightarrow> 'a message list \<times> row list" where
  "run_tool_calls env i [] db = ([], db)"
| "run_tool_calls env i (call # calls) db =
     (case exec_call env i call db of
        (m, db') \<Rightarrow>
          (case run_tool_calls env (Suc i) calls db' of
             (ms, db'') \<Rightarrow> (m # ms, db'')))"

text \<open>
  The session: \<^verbatim>\<open>st.session_state.messages\<close> and the table. A turn either returns,
  having rendered a final text, or an exception leaves it; in both cases the session is
  what the turn has made of it so far.
\<close>

record 'a session =
  messages :: "'a message list"
  memory :: "row list"

datatype 'a turn = Returned string "'a session" | Raised exn "'a session"

fun session_after :: "'a turn \<Rightarrow> 'a session" where
  "session_after (Returned final_response_content s) = s"
| "session_after (Raised e s) = s"

text \<open>\<^verbatim>\<open>handle_chat_input(prompt)\<close>.\<close>

definition handle_chat_input :: "'a env \<Rightarrow> string \<Rightarrow> 'a session \<Rightarrow> 'a turn" where
  "handle_chat_input env prompt s =
     (let msgs1 = messages s @ [HumanMessage prompt] in
      case llm_invoke env msgs1 of
        Inl e \<Rightarrow> Raised e (s\<lparr>messages := msgs1\<rparr>)
      | Inr (content, tool_calls) \<Rightarrow>
          let msgs2 = msgs1 @ [AIMessage content tool_calls] in
          if tool_calls \<noteq> [] then
            (case run_tool_calls env 0 tool_calls (memory s) of
               (tool_results, db') \<Rightarrow>
                 let msgs3 = msgs2 @ tool_results in
                 (case llm_invoke env msgs3 of
                    Inl e \<Rightarrow> Raised e \<lparr>messages = msgs3, memory = db'\<rparr>
                  | Inr (final_content, final_calls) \<Rightarrow>
                      Returned final_content
                        \<lparr>messages = msgs3 @ [AIMessage final_content final_calls], memory = db'\<rparr>))
          else Returned content (s\<lparr>messages := msgs2\<rparr>))"

text \<open>
  The initial history, set where \<^verbatim>\<open>"messages" not in st.session_state\<close>; \<open>None\<close> is a
  session state without the key.
\<close>

definition initial_messages :: "'a message list" where
  "initial_messages = [SystemMessage SYSTEM_PROMPT, AIMessage greeting []]"

definition init_messages :: "'a message list option \<Rightarrow> 'a message list" where
  "init_messages stored = (case stored of None \<Rightarrow> initial_messages | Some ms \<Rightarrow> ms)"

text \<open>\<^verbatim>\<open>handle_random_vocabulary()\<close>, which calls \<^verbatim>\<open>f_memory_query\<close> with 5 directly.\<close>

definition handle_random_vocabulary ::
    "(nat \<Rightarrow> int) \<Rightarrow> row list \<Rightarrow> 'a message list option \<Rightarrow> exn + 'a message list" where
  "handle_random_vocabulary rnd db stored =
     (case f_memory_query rnd 5 db of
        Inl e \<Rightarrow> Inl e
      | Inr result \<Rightarrow>
          let formatted_result = random_heading @ result in
          Inr (init_messages stored @
               [HumanMessage ''Tampilkan 5 kosakata acak yang sudah saya pelajari'',
                AIMessage formatted_result []]))"

text \<open>
  The histories a session can hold: none before the first run of the script, the initial
  one, and what a chat turn (returned or aborted) or the random-vocabulary shortcut makes
  of a reachable one, whatever the outside world and the table are.
\<close>

inductive reachable :: "'a message list option \<Rightarrow> bool" where
  fresh: "reachable None"
| init: "reachable stored \<Longrightarrow> reachable (Some (init_messages stored))"
| chat: "reachable (Some ms) \<Longrightarrow>
         reachable (Some (messages (session_after
           (handle_chat_input env prompt \<lparr>messages = ms, memory = db\<rparr>))))"
| random: "reachable stored \<Longrightarrow> handle_random_vocabulary rnd db stored = Inr ms' \<Longrightarrow>
           reachable (Some ms')"

text \<open>
  A history begins with exactly one system message: its first message is the system
  prompt and no later message is a system message.
\<close>

definition one_system_message_first :: "'a message list \<Rightarrow> bool" where
  "one_system_message_first ms =
     (case ms of
        [] \<Rightarrow> False
      | m # rest \<Rightarrow> m = SystemMessage SYSTEM_PROMPT \<and> list_all (\<lambda>m. \<not> is_system m) rest)"

subsection \<open>A sample outside world\<close>

text \<open>
  A concrete world on which the statements below are run. Argument mappings are
  association lists of texts. The model asks for three tools in answer to the user: a
  dictionary lookup, which raises because the similarity index was never loaded
  (\<^verbatim>\<open>vector_db\<close> is \<^verbatim>\<open>None\<close>), a vocabulary update, and a tool that does not exist.
\<close>

definition lookup_call :: "(string \<times> string) list tool_call" where
  "lookup_call = ToolCall ''f_lookup_dictionary'' (ArgsDict [(''question'', ''neko'')]) ''call-1''"

definition update_call :: "(string \<times> string) list tool_call" where
  "update_call =
     ToolCall ''f_memory_update'' (ArgsDict [(''word'', ''inu''), (''meaning'', ''anjing'')]) ''call-2''"

definition unknown_call :: "(string \<times> string) list tool_call" where
  "unknown_call = ToolCall ''f_translate'' (ArgsDict []) ''call-3''"

definition sample_calls :: "(string \<times> string) list tool_call list" where
  "sample_calls = [lookup_call, update_call, unknown_call]"

definition index_missing :: exn where
  "index_missing =
     Exn ''AttributeError''
       ([CHR 0x27] @ ''NoneType'' @ [CHR 0x27] @ '' object has no attribute '' @
        [CHR 0x27] @ ''similarity_search'' @ [CHR 0x27])"

definition json_decode_error :: exn where
  "json_decode_error =
     Exn ''JSONDecodeError''
       ''Expecting property name enclosed in double quotes: line 1 column 2 (char 1)''"

definition sample_env :: "(string \<times> string) list env" where
  "sample_env =
     \<lparr>llm_invoke = (\<lambda>ms. case last ms of
                              HumanMessage p \<Rightarrow> Inr ([], sample_calls)
                            | _ \<Rightarrow> Inr (''Selesai.'', [])),
      json_loads = (\<lambda>s. if s = ''{}'' then Inr [] else Inl json_decode_error),
      update_schema = (\<lambda>d. case (map_of d ''word'', map_of d ''meaning'') of
                              (Some w, Some m) \<Rightarrow> Inr (w, m)
                            | _ \<Rightarrow> Inl (Exn ''ValidationError'' ''Field required'')),
      query_schema = (\<lambda>d. Inr 5),
      lookup_dictionary = (\<lambda>d. Inl index_missing),
      datetime_now = (\<lambda>i. ''2025-01-01 10:00:00''),
      sql_random = (\<lambda>i j. int j)\<rparr>"

text \<open>The same world, but the model service is down when the loop asks it to integrate.\<close>

definition service_down :: exn where
  "service_down = Exn ''ServiceUnavailable'' ''503 The model is overloaded.''"

definition offline_env :: "(string \<times> string) list env" where
  "offline_env =
     sample_env\<lparr>llm_invoke := (\<lambda>ms. case last ms of
                                       HumanMessage p \<Rightarrow> Inr ([], sample_calls)
                                     | _ \<Rightarrow> Inl service_down)\<rparr>"

definition sample_db :: "row list" where
  "sample_db =
     [\<lparr>kata = ''inu'', arti = ''anjing'', inserted_at = ''2025-01-01 10:00:00''\<rparr>,
      \<lparr>kata = ''neko'', arti = ''kucing'', inserted_at = ''2025-01-01 10:00:07''\<rparr>]"

definition sample_session :: "(string \<times> string) list session" where
  "sample_session = \<lparr>messages = initial_messages, memory = []\<rparr>"

section \<open>The vocabulary store\<close>

subsection \<open>Auxiliary facts\<close>

lemma mset_insert_desc: "mset (insert_desc r xs) = add_mset r (mset xs)"
  by (induction xs) auto

lemma mset_order_by_inserted_at_desc: "mset (order_by_inserted_at_desc db) = mset db"
  unfolding order_by_inserted_at_desc_def by (induction db) (auto simp: mset_insert_desc)

lemma set_insert_desc: "set (insert_desc r xs) = insert r (set xs)"
  by (induction xs) auto

lemma descending_insert_desc: "descending xs \<Longrightarrow> descending (insert_desc r xs)"
  unfolding descending_def
  by (induction xs) (auto simp: set_insert_desc)

lemma descending_order_by: "descending (order_by_inserted_at_desc db)"
  unfolding order_by_inserted_at_desc_def
  by (induction db) (auto simp: descending_insert_desc, simp add: descending_def)

lemma mset_order_by_random: "mset (order_by_random rnd db) = mset db"
proof -
  let ?zs = "zip (map rnd [0..<length db]) db"
  have "mset (map snd (sort_key fst ?zs)) = image_mset snd (mset (sort_key fst ?zs))"
    by simp
  also have "\<dots> = image_mset snd (mset ?zs)"
    by simp
  also have "\<dots> = mset (map snd ?zs)"
    by (simp only: mset_map)
  finally have "mset (map snd (sort_key fst ?zs)) = mset (map snd ?zs)" .
  moreover have "map snd ?zs = db"
    by simp
  ultimately show ?thesis
    by (simp only: order_by_random_def)
qed

lemma mset_take_subset: "mset (take k xs) \<subseteq># mset xs"
proof -
  have "mset xs = mset (take k xs) + mset (drop k xs)"
    by (simp flip: mset_append)
  then show ?thesis
    by simp
qed

lemma mset_sql_limit: "mset (sql_limit n xs) \<subseteq># mset xs"
  by (simp add: sql_limit_def mset_take_subset)

lemma length_sql_limit:
  "length (sql_limit n xs) = (if n < 0 then length xs else min (nat n) (length xs))"
  by (simp add: sql_limit_def min_def)

lemma sql_limit_is_take: "\<exists>k. sql_limit n xs = take k xs"
  by (cases "n < 0") (auto simp: sql_limit_def intro: exI[of _ "length xs"])

lemma descending_distinct_strict:
  "descending rs \<Longrightarrow> distinct (map inserted_at rs) \<Longrightarrow> strictly_descending rs"
  unfolding descending_def strictly_descending_def
proof (induction rs)
  case Nil
  then show ?case by simp
next
  case (Cons a rs)
  have "inserted_at x < inserted_at a" if "x \<in> set rs" for x
  proof -
    have "inserted_at x \<le> inserted_at a"
      using Cons.prems(1) that by simp
    moreover have "inserted_at x \<noteq> inserted_at a"
    proof
      assume "inserted_at x = inserted_at a"
      then have "inserted_at a \<in> inserted_at ` set rs"
        using that by (simp add: rev_image_eqI)
      then show False
        using Cons.prems(2) by simp
    qed
    ultimately show ?thesis by simp
  qed
  then show ?case
    using Cons by simp
qed

lemma descending_take: "descending rs \<Longrightarrow> descending (take k rs)"
  unfolding descending_def by (rule sorted_wrt_take)

lemma descending_take_drop:
  assumes "descending rs" and "x \<in> set (take k rs)" and "y \<in> set (drop k rs)"
  shows "inserted_at y \<le> inserted_at x"
proof -
  have "descending (take k rs @ drop k rs)"
    using assms(1) by simp
  then show ?thesis
    using assms(2,3) unfolding descending_def sorted_wrt_append by blast
qed

subsection \<open>Inserting\<close>

text \<open>
  C1. The store is meant never to hold the same word twice: the second insert of a word
  should answer that the word exists and leave the table as it is. The check looks for
  the lower-cased word but the row is written with the word as given, so a word with a
  capital letter is never found again. Inserting \<^verbatim>\<open>Inu\<close> twice into an empty table answers
  with the success text both times and leaves two rows with the key \<^verbatim>\<open>Inu\<close>.
\<close>

theorem f_memory_update_twice_two_rows:
  "f_memory_update ''2025-01-01 10:00:05'' ''Inu'' ''anjing''
     (snd (f_memory_update ''2025-01-01 10:00:00'' ''Inu'' ''anjing'' [])) =
   (''Berhasil menambahkan '' @ [CHR 0x27] @ ''Inu'' @ [CHR 0x27] @ '' (anjing) ke kosakata Anda'',
    [\<lparr>kata = ''Inu'', arti = ''anjing'', inserted_at = ''2025-01-01 10:00:00''\<rparr>,
     \<lparr>kata = ''Inu'', arti = ''anjing'', inserted_at = ''2025-01-01 10:00:05''\<rparr>])"
  by (simp add: f_memory_update_def lower_def lower_char_def)

text \<open>
  C4. A successful insert is meant to store the case-normalised word. The row written
  carries the word as given: after inserting \<^verbatim>\<open>Inu\<close> into an empty table the stored key is
  \<^verbatim>\<open>Inu\<close>, which is not its lower-case form \<^verbatim>\<open>inu\<close>.
\<close>

theorem f_memory_update_stores_word_as_given:
  "snd (f_memory_update ''2025-01-01 10:00:00'' ''Inu'' ''anjing'' []) =
     [\<lparr>kata = ''Inu'', arti = ''anjing'', inserted_at = ''2025-01-01 10:00:00''\<rparr>]
   \<and> lower ''Inu'' = ''inu''
   \<and> ''Inu'' \<noteq> lower ''Inu''"
  by (simp add: f_memory_update_def lower_def lower_char_def)

subsection \<open>Deleting\<close>

text \<open>
  C5. Deleting a word removes exactly the rows whose stored key equals the argument,
  byte for byte: no such row is left, and the rows with any other key (in particular a
  key that differs from the argument only in case) are all still there, as often as
  before and in the same order.
\<close>

theorem delete_vocabulary_exact_case:
  "filter (\<lambda>r. kata r = word) (snd (delete_vocabulary word db)) = []
   \<and> filter (\<lambda>r. kata r \<noteq> word) (snd (delete_vocabulary word db)) =
       filter (\<lambda>r. kata r \<noteq> word) db
   \<and> mset (snd (delete_vocabulary word db)) = filter_mset (\<lambda>r. kata r \<noteq> word) (mset db)"
  by (simp add: delete_vocabulary_def filter_empty_conv)

subsection \<open>Random sample\<close>

text \<open>
  C6, as the claim states it, fails for a negative \<open>n\<close>: \<^verbatim>\<open>LIMIT -1\<close> lifts the limit, and
  a table of one row gives a list of one entry, which is more than \<open>n\<close>.
\<close>

theorem f_memory_query_negative_limit:
  "f_memory_query (\<lambda>i. 0) (- 1)
     [\<lparr>kata = ''inu'', arti = ''anjing'', inserted_at = ''2025-01-01 10:00:00''\<rparr>] =
   Inr ''Kosakata acak yang tersimpan:\<newline>- inu (anjing)''"
  by (simp add: f_memory_query_def query_rows_def in_int64_def sql_limit_def order_by_random_def
      query_header_def bullet_def)

text \<open>
  C6, amended. For every \<open>n\<close> that fits a signed 64-bit integer, the answer is built from
  a selection \<open>rs\<close> of rows drawn from the table without repetition: \<open>min n count\<close> of
  them when \<open>n\<close> is not negative and all of them when it is. The answer is the text
  \<^verbatim>\<open>Database kosong.\<close> when the selection is empty, and otherwise the header followed by one
  bullet per selected row. On an empty table the answer is always \<^verbatim>\<open>Database kosong.\<close>.
\<close>

theorem f_memory_query_sample:
  assumes "in_int64 n"
  shows "\<exists>rs. f_memory_query rnd n db =
            Inr (if rs = [] then empty_message
                 else query_header @ join ''\<newline>'' (map bullet rs))
          \<and> mset rs \<subseteq># mset (map (\<lambda>r. (kata r, arti r)) db)
          \<and> length rs = (if n < 0 then length db else min (nat n) (length db))
          \<and> f_memory_query rnd n [] = Inr empty_message"
proof -
  let ?rs = "query_rows rnd n db"
  have out: "f_memory_query rnd n db =
      Inr (if ?rs = [] then empty_message else query_header @ join ''\<newline>'' (map bullet ?rs))"
    using assms by (simp add: f_memory_query_def)
  have "mset (sql_limit n (order_by_random rnd db)) \<subseteq># mset db"
    using mset_sql_limit[of n "order_by_random rnd db"] by (simp add: mset_order_by_random)
  then have sub: "mset ?rs \<subseteq># mset (map (\<lambda>r. (kata r, arti r)) db)"
    unfolding query_rows_def mset_map by (rule image_mset_subseteq_mono)
  have "size (mset (order_by_random rnd db)) = size (mset db)"
    by (simp only: mset_order_by_random)
  then have "length (order_by_random rnd db) = length db"
    by simp
  then have len: "length ?rs = (if n < 0 then length db else min (nat n) (length db))"
    by (simp add: query_rows_def length_sql_limit)
  have emp: "f_memory_query rnd n [] = Inr empty_message"
    using assms by (simp add: f_memory_query_def query_rows_def sql_limit_def order_by_random_def)
  from out sub len emp show ?thesis by blast
qed

theorem f_memory_query_sample_witness:
  "in_int64 1
   \<and> (\<exists>rs. f_memory_query (\<lambda>i. - int i) 1 sample_db =
            Inr (if rs = [] then empty_message
                 else query_header @ join ''\<newline>'' (map bullet rs))
          \<and> mset rs \<subseteq># mset (map (\<lambda>r. (kata r, arti r)) sample_db)
          \<and> length rs = (if (1::int) < 0 then length sample_db else min (nat 1) (length sample_db))
          \<and> f_memory_query (\<lambda>i. - int i) 1 [] = Inr empty_message)"
proof -
  have h: "in_int64 1"
    by (simp add: in_int64_def)
  show ?thesis
    by (rule conjI[OF h f_memory_query_sample[OF h]])
qed

text \<open>
  C10. With \<^verbatim>\<open>rows_query = 0\<close> the answer is \<^verbatim>\<open>Database kosong.\<close> whatever the table
  holds: the text tells that nothing was selected, not that the table is empty.
\<close>

theorem f_memory_query_zero_rows:
  "f_memory_query rnd 0 db = Inr empty_message
   \<and> f_memory_query rnd 0 sample_db = Inr ''Database kosong.''
   \<and> get_vocabulary_count sample_db = 2"
  by (simp add: f_memory_query_def query_rows_def sql_limit_def in_int64_def empty_message_def
      get_vocabulary_count_def sample_db_def)

subsection \<open>Most recent entries\<close>

text \<open>
  C7, as the claim states it, fails for two inserts within the same second: both rows
  carry the same \<^verbatim>\<open>inserted_at\<close>, so the listing is not strictly descending.
\<close>

theorem get_recent_vocabulary_same_second:
  "get_recent_vocabulary 10
     (snd (f_memory_update ''2025-01-01 10:00:00'' ''neko'' ''kucing''
        (snd (f_memory_update ''2025-01-01 10:00:00'' ''inu'' ''anjing'' [])))) =
   Inr [\<lparr>kata = ''inu'', arti = ''anjing'', inserted_at = ''2025-01-01 10:00:00''\<rparr>,
        \<lparr>kata = ''neko'', arti = ''kucing'', inserted_at = ''2025-01-01 10:00:00''\<rparr>]
   \<and> \<not> strictly_descending
        [\<lparr>kata = ''inu'', arti = ''anjing'', inserted_at = ''2025-01-01 10:00:00''\<rparr>,
         \<lparr>kata = ''neko'', arti = ''kucing'', inserted_at = ''2025-01-01 10:00:00''\<rparr>]"
  by (simp add: get_recent_vocabulary_def f_memory_update_def lower_def lower_char_def
      in_int64_def sql_limit_def order_by_inserted_at_desc_def strictly_descending_def)

text \<open>
  C7, amended. For every limit that fits a signed 64-bit integer the listing is a
  selection of the table's rows in which no row is followed by one with a later
  \<^verbatim>\<open>inserted_at\<close>; it is strictly descending when no two rows of the table share an
  \<^verbatim>\<open>inserted_at\<close>. It holds \<open>min limit count\<close> rows (all of them when the limit is
  negative), and no row left out is later than a row listed.
\<close>

theorem get_recent_vocabulary_descending:
  assumes "in_int64 limit"
  shows "\<exists>rs. get_recent_vocabulary limit db = Inr rs
          \<and> descending rs
          \<and> (distinct (map inserted_at db) \<longrightarrow> strictly_descending rs)
          \<and> mset rs \<subseteq># mset db
          \<and> length rs = (if limit < 0 then length db else min (nat limit) (length db))
          \<and> (\<forall>x \<in> set rs. \<forall>y \<in># mset db - mset rs. inserted_at y \<le> inserted_at x)"
proof -
  let ?s = "order_by_inserted_at_desc db"
  let ?rs = "sql_limit limit ?s"
  obtain k where k: "?rs = take k ?s"
    using sql_limit_is_take by blast
  have out: "get_recent_vocabulary limit db = Inr ?rs"
    using assms by (simp add: get_recent_vocabulary_def)
  have desc: "descending ?rs"
    unfolding k by (rule descending_take) (rule descending_order_by)
  have sub: "mset ?rs \<subseteq># mset db"
    using mset_sql_limit[of limit ?s] by (simp add: mset_order_by_inserted_at_desc)
  have strict: "strictly_descending ?rs" if d: "distinct (map inserted_at db)"
  proof -
    have "mset (map inserted_at ?s) = mset (map inserted_at db)"
      by (simp add: mset_order_by_inserted_at_desc)
    then have "distinct (map inserted_at ?s) = distinct (map inserted_at db)"
      by (rule mset_eq_imp_distinct_iff)
    then have "distinct (map inserted_at ?s)"
      using d by simp
    then have "distinct (take k (map inserted_at ?s))"
      by (rule distinct_take)
    then have "distinct (map inserted_at (take k ?s))"
      by (simp only: take_map)
    then show ?thesis
      using desc descending_distinct_strict k by simp
  qed
  have "size (mset ?s) = size (mset db)"
    by (simp only: mset_order_by_inserted_at_desc)
  then have "length ?s = length db"
    by simp
  then have len: "length ?rs = (if limit < 0 then length db else min (nat limit) (length db))"
    by (simp add: length_sql_limit)
  have "mset ?s = mset (take k ?s) + mset (drop k ?s)"
    by (simp flip: mset_append)
  then have "mset db = mset (take k ?s) + mset (drop k ?s)"
    by (simp only: mset_order_by_inserted_at_desc)
  then have rest: "mset db - mset ?rs = mset (drop k ?s)"
    by (simp add: k)
  have top: "\<forall>x \<in> set ?rs. \<forall>y \<in># mset db - mset ?rs. inserted_at y \<le> inserted_at x"
    unfolding rest unfolding k
    using descending_take_drop[OF descending_order_by] by auto
  from out desc strict sub len top show ?thesis by blast
qed

theorem get_recent_vocabulary_descending_witness:
  "in_int64 1
   \<and> distinct (map inserted_at sample_db)
   \<and> get_recent_vocabulary 1 sample_db =
       Inr [\<lparr>kata = ''neko'', arti = ''kucing'', inserted_at = ''2025-01-01 10:00:07''\<rparr>]
   \<and> (\<exists>rs. get_recent_vocabulary 1 sample_db = Inr rs
          \<and> descending rs
          \<and> (distinct (map inserted_at sample_db) \<longrightarrow> strictly_descending rs)
          \<and> mset rs \<subseteq># mset sample_db
          \<and> length rs = (if (1::int) < 0 then length sample_db else min (nat 1) (length sample_db))
          \<and> (\<forall>x \<in> set rs. \<forall>y \<in># mset sample_db - mset rs. inserted_at y \<le> inserted_at x))"
proof -
  have h: "in_int64 1"
    by (simp add: in_int64_def)
  have d: "distinct (map inserted_at sample_db)"
    by (simp add: sample_db_def)
  have v: "get_recent_vocabulary 1 sample_db =
       Inr [\<lparr>kata = ''neko'', arti = ''kucing'', inserted_at = ''2025-01-01 10:00:07''\<rparr>]"
    by (simp add: get_recent_vocabulary_def in_int64_def sql_limit_def sample_db_def
        order_by_inserted_at_desc_def)
  show ?thesis
    by (rule conjI[OF h conjI[OF d conjI[OF v get_recent_vocabulary_descending[OF h]]]])
qed

section \<open>The dispatch loop\<close>

subsection \<open>Auxiliary facts\<close>

lemma exec_call_tool_message:
  "\<exists>content. fst (exec_call env i call db) = ToolMessage content (call_id call)"
  by (auto simp: exec_call_def split: sum.splits prod.splits)

lemma run_tool_calls_Cons:
  "run_tool_calls env i (call # calls) db =
     (fst (exec_call env i call db) #
        fst (run_tool_calls env (Suc i) calls (snd (exec_call env i call db))),
      snd (run_tool_calls env (Suc i) calls (snd (exec_call env i call db))))"
  by (simp split: prod.splits)

lemma run_tool_calls_append:
  "run_tool_calls env i (xs @ ys) db =
     (fst (run_tool_calls env i xs db) @
        fst (run_tool_calls env (i + length xs) ys (snd (run_tool_calls env i xs db))),
      snd (run_tool_calls env (i + length xs) ys (snd (run_tool_calls env i xs db))))"
proof (induction xs arbitrary: i db)
  case Nil
  then show ?case by simp
next
  case (Cons x xs)
  show ?case
    unfolding append_Cons run_tool_calls_Cons Cons.IH
    by simp
qed

lemma run_tool_calls_ids:
  "map tool_call_id (fst (run_tool_calls env i calls db)) = map (\<lambda>c. Some (call_id c)) calls"
proof (induction calls arbitrary: i db)
  case Nil
  then show ?case by simp
next
  case (Cons c cs)
  obtain content where "fst (exec_call env i c db) = ToolMessage content (call_id c)"
    using exec_call_tool_message by blast
  then show ?case
    unfolding run_tool_calls_Cons by (simp add: Cons.IH)
qed

lemma run_tool_calls_length: "length (fst (run_tool_calls env i calls db)) = length calls"
proof -
  have "length (map tool_call_id (fst (run_tool_calls env i calls db))) =
        length (map (\<lambda>c. Some (call_id c)) calls)"
    by (simp only: run_tool_calls_ids)
  then show ?thesis by simp
qed

lemma run_tool_calls_no_system:
  "list_all (\<lambda>m. \<not> is_system m) (fst (run_tool_calls env i calls db))"
proof (induction calls arbitrary: i db)
  case Nil
  then show ?case by simp
next
  case (Cons c cs)
  obtain content where "fst (exec_call env i c db) = ToolMessage content (call_id c)"
    using exec_call_tool_message by blast
  then show ?case
    unfolding run_tool_calls_Cons by (simp add: Cons.IH)
qed

text \<open>
  What a chat turn and the random-vocabulary shortcut do to the history: they append, and
  nothing they append is a system message.
\<close>

lemma handle_chat_input_appends:
  "\<exists>added. messages (session_after (handle_chat_input env prompt s)) = messages s @ added
         \<and> list_all (\<lambda>m. \<not> is_system m) added"
proof (cases "llm_invoke env (messages s @ [HumanMessage prompt])")
  case (Inl e)
  then have "messages (session_after (handle_chat_input env prompt s)) =
      messages s @ [HumanMessage prompt]"
    by (simp add: handle_chat_input_def)
  then show ?thesis by simp
next
  case (Inr r)
  obtain content calls where r: "r = (content, calls)" by (cases r)
  show ?thesis
  proof (cases "calls = []")
    case True
    then have "messages (session_after (handle_chat_input env prompt s)) =
      messages s @ [HumanMessage prompt, AIMessage content calls]"
      using Inr r by (simp add: handle_chat_input_def)
    then show ?thesis by simp
  next
    case False
    obtain results db' where run: "run_tool_calls env 0 calls (memory s) = (results, db')"
      by (cases "run_tool_calls env 0 calls (memory s)")
    have ns: "list_all (\<lambda>m. \<not> is_system m) results"
      using run_tool_calls_no_system[of env 0 calls "memory s"] run by simp
    let ?base = "messages s @ [HumanMessage prompt, AIMessage content calls] @ results"
    show ?thesis
    proof (cases "llm_invoke env ?base")
      case (Inl e)
      then have "messages (session_after (handle_chat_input env prompt s)) =
          messages s @ ([HumanMessage prompt, AIMessage content calls] @ results)"
        using Inr r False run by (simp add: handle_chat_input_def)
      moreover have "list_all (\<lambda>m. \<not> is_system m)
          ([HumanMessage prompt, AIMessage content calls] @ results)"
        using ns by simp
      ultimately show ?thesis by blast
    next
      case fin: (Inr f)
      obtain fc fcalls where f: "f = (fc, fcalls)" by (cases f)
      have "messages (session_after (handle_chat_input env prompt s)) =
          messages s @
            ([HumanMessage prompt, AIMessage content calls] @ results @ [AIMessage fc fcalls])"
        using Inr r False run fin f by (simp add: handle_chat_input_def)
      moreover have "list_all (\<lambda>m. \<not> is_system m)
          ([HumanMessage prompt, AIMessage content calls] @ results @ [AIMessage fc fcalls])"
        using ns by simp
      ultimately show ?thesis by blast
    qed
  qed
qed

lemma handle_random_vocabulary_appends:
  assumes "handle_random_vocabulary rnd db stored = Inr ms'"
  shows "\<exists>added. ms' = init_messages stored @ added \<and> list_all (\<lambda>m. \<not> is_system m) added"
  using assms
  by (auto simp: handle_random_vocabulary_def Let_def split: sum.splits)

lemma one_system_message_first_append:
  "one_system_message_first ms \<Longrightarrow> list_all (\<lambda>m. \<not> is_system m) added \<Longrightarrow>
   one_system_message_first (ms @ added)"
  by (cases ms) (auto simp: one_system_message_first_def)

lemma one_system_message_first_init:
  "(\<And>ms. stored = Some ms \<Longrightarrow> one_system_message_first ms) \<Longrightarrow>
   one_system_message_first (init_messages stored)"
  by (cases stored) (auto simp: init_messages_def initial_messages_def one_system_message_first_def)

subsection \<open>Tool results of a turn\<close>

text \<open>
  C2, as the claim states it, fails when the model service raises on the integrating
  call: the three tool results are in the history, in call order and with the calls' ids,
  but no final assistant message follows and the turn is left by the exception.
\<close>

theorem handle_chat_input_service_down:
  "handle_chat_input offline_env ''Apa arti neko?'' sample_session =
     Raised service_down
       \<lparr>messages = initial_messages @
          [HumanMessage ''Apa arti neko?'',
           AIMessage [] sample_calls,
           ToolMessage (error_msg ''f_lookup_dictionary'' index_missing) ''call-1'',
           ToolMessage (fst (f_memory_update ''2025-01-01 10:00:00'' ''inu'' ''anjing'' []))
             ''call-2'',
           ToolMessage (unknown_tool_message ''f_translate'') ''call-3''],
        memory = [\<lparr>kata = ''inu'', arti = ''anjing'', inserted_at = ''2025-01-01 10:00:00''\<rparr>]\<rparr>"
  by (simp add: handle_chat_input_def offline_env_def sample_env_def sample_session_def
      sample_calls_def lookup_call_def update_call_def unknown_call_def
      exec_call_def try_body_def parse_args_def f_memory_update_def)

text \<open>
  C2, amended. In a turn whose model response holds \<open>N \<ge> 1\<close> tool calls, the loop appends
  the user message, the model's message and exactly \<open>N\<close> tool results, one per call, in
  call order, each carrying its call's id. When the integrating model call answers, exactly
  one assistant message follows them and the turn returns; when it raises, the turn is
  left by that exception with the \<open>N\<close> tool results appended and no final message.
\<close>

theorem handle_chat_input_tool_results:
  assumes "llm_invoke env (messages s @ [HumanMessage prompt]) = Inr (content, calls)"
      and "calls \<noteq> []"
  shows "\<exists>results db'.
           length results = length calls
         \<and> map tool_call_id results = map (\<lambda>c. Some (call_id c)) calls
         \<and> handle_chat_input env prompt s =
             (case llm_invoke env
                     (messages s @ [HumanMessage prompt, AIMessage content calls] @ results) of
                Inr (final_content, final_calls) \<Rightarrow>
                  Returned final_content
                    \<lparr>messages = messages s @ [HumanMessage prompt, AIMessage content calls] @
                                  results @ [AIMessage final_content final_calls],
                     memory = db'\<rparr>
              | Inl e \<Rightarrow>
                  Raised e
                    \<lparr>messages = messages s @ [HumanMessage prompt, AIMessage content calls] @
                                  results,
                     memory = db'\<rparr>)"
proof -
  obtain results db' where run: "run_tool_calls env 0 calls (memory s) = (results, db')"
    by (cases "run_tool_calls env 0 calls (memory s)")
  have len: "length results = length calls"
    using run_tool_calls_length[of env 0 calls "memory s"] run by simp
  have ids: "map tool_call_id results = map (\<lambda>c. Some (call_id c)) calls"
    using run_tool_calls_ids[of env 0 calls "memory s"] run by simp
  have "handle_chat_input env prompt s =
             (case llm_invoke env
                     (messages s @ [HumanMessage prompt, AIMessage content calls] @ results) of
                Inr (final_content, final_calls) \<Rightarrow>
                  Returned final_content
                    \<lparr>messages = messages s @ [HumanMessage prompt, AIMessage content calls] @
                                  results @ [AIMessage final_content final_calls],
                     memory = db'\<rparr>
              | Inl e \<Rightarrow>
                  Raised e
                    \<lparr>messages = messages s @ [HumanMessage prompt, AIMessage content calls] @
                                  results,
                     memory = db'\<rparr>)"
    using assms run by (simp add: handle_chat_input_def split: sum.splits prod.splits)
  with len ids show ?thesis by blast
qed

theorem handle_chat_input_tool_results_witness:
  "llm_invoke sample_env (messages sample_session @ [HumanMessage ''Apa arti neko?'']) =
     Inr ([], sample_calls)
   \<and> sample_calls \<noteq> []
   \<and> (\<exists>results db'.
           length results = length sample_calls
         \<and> map tool_call_id results = map (\<lambda>c. Some (call_id c)) sample_calls
         \<and> handle_chat_input sample_env ''Apa arti neko?'' sample_session =
             (case llm_invoke sample_env
                     (messages sample_session @
                      [HumanMessage ''Apa arti neko?'', AIMessage [] sample_calls] @ results) of
                Inr (final_content, final_calls) \<Rightarrow>
                  Returned final_content
                    \<lparr>messages = messages sample_session @
                                  [HumanMessage ''Apa arti neko?'', AIMessage [] sample_calls] @
                                  results @ [AIMessage final_content final_calls],
                     memory = db'\<rparr>
              | Inl e \<Rightarrow>
                  Raised e
                    \<lparr>messages = messages sample_session @
                                  [HumanMessage ''Apa arti neko?'', AIMessage [] sample_calls] @
                                  results,
                     memory = db'\<rparr>))"
proof -
  have h1: "llm_invoke sample_env (messages sample_session @ [HumanMessage ''Apa arti neko?'']) =
     Inr ([], sample_calls)"
    by (simp add: sample_env_def)
  have h2: "sample_calls \<noteq> []"
    by (simp add: sample_calls_def)
  show ?thesis
    by (rule conjI[OF h1 conjI[OF h2 handle_chat_input_tool_results[OF h1 h2]]])
qed

subsection \<open>A call that raises\<close>

text \<open>
  C3. When the body of the \<^verbatim>\<open>try\<close> raises for one call of the turn, that call's tool
  result is the text \<^verbatim>\<open>Error saat menjalankan tool <name>: <e>\<close>, built from the
  call's name and the exception, under the call's id, and the table is as it was before
  the call. The calls before it and the calls after it are run all the same, the later
  ones from that table, and their results stand around the error text in call order.
\<close>

theorem run_tool_calls_isolates_failure:
  assumes "run_tool_calls env 0 before db = (ms1, db1)"
      and "try_body env (length before) call db1 = Inl e"
      and "run_tool_calls env (Suc (length before)) after db1 = (ms2, db2)"
  shows "run_tool_calls env 0 (before @ call # after) db =
           (ms1 @
            ToolMessage (''Error saat menjalankan tool '' @ call_name call @ '': '' @ exn_str e)
              (call_id call) #
            ms2,
            db2)"
  using assms
  by (simp add: run_tool_calls_append run_tool_calls_Cons exec_call_def error_msg_def)

theorem run_tool_calls_isolates_failure_witness:
  "''Error saat menjalankan tool '' @ call_name lookup_call @ '': '' @ exn_str index_missing =
     ''Error saat menjalankan tool f_lookup_dictionary: '' @ [CHR 0x27] @ ''NoneType'' @
     [CHR 0x27] @ '' object has no attribute '' @ [CHR 0x27] @ ''similarity_search'' @ [CHR 0x27]
   \<and> run_tool_calls sample_env 0 [] [] = ([], [])
   \<and> try_body sample_env (length ([] :: (string \<times> string) list tool_call list)) lookup_call [] =
       Inl index_missing
   \<and> run_tool_calls sample_env (Suc (length ([] :: (string \<times> string) list tool_call list)))
        [update_call, unknown_call] [] =
       ([ToolMessage
           (''Berhasil menambahkan '' @ [CHR 0x27] @ ''inu'' @ [CHR 0x27] @
            '' (anjing) ke kosakata Anda'')
           ''call-2'',
         ToolMessage ''Tool tidak dikenal: f_translate'' ''call-3''],
        [\<lparr>kata = ''inu'', arti = ''anjing'', inserted_at = ''2025-01-01 10:00:00''\<rparr>])
   \<and> run_tool_calls sample_env 0 ([] @ lookup_call # [update_call, unknown_call]) [] =
       ([] @
        ToolMessage
          (''Error saat menjalankan tool '' @ call_name lookup_call @ '': '' @
           exn_str index_missing)
          (call_id lookup_call) #
        [ToolMessage
           (''Berhasil menambahkan '' @ [CHR 0x27] @ ''inu'' @ [CHR 0x27] @
            '' (anjing) ke kosakata Anda'')
           ''call-2'',
         ToolMessage ''Tool tidak dikenal: f_translate'' ''call-3''],
        [\<lparr>kata = ''inu'', arti = ''anjing'', inserted_at = ''2025-01-01 10:00:00''\<rparr>])"
proof -
  have t: "''Error saat menjalankan tool '' @ call_name lookup_call @ '': '' @
      exn_str index_missing =
     ''Error saat menjalankan tool f_lookup_dictionary: '' @ [CHR 0x27] @ ''NoneType'' @
     [CHR 0x27] @ '' object has no attribute '' @ [CHR 0x27] @ ''similarity_search'' @ [CHR 0x27]"
    by (simp add: lookup_call_def index_missing_def)
  have a: "run_tool_calls sample_env 0 [] [] = ([], [])"
    by simp
  have b: "try_body sample_env (length ([] :: (string \<times> string) list tool_call list))
        lookup_call [] = Inl index_missing"
    by (simp add: try_body_def parse_args_def sample_env_def lookup_call_def)
  have c: "run_tool_calls sample_env (Suc (length ([] :: (string \<times> string) list tool_call list)))
        [update_call, unknown_call] [] =
       ([ToolMessage
           (''Berhasil menambahkan '' @ [CHR 0x27] @ ''inu'' @ [CHR 0x27] @
            '' (anjing) ke kosakata Anda'')
           ''call-2'',
         ToolMessage ''Tool tidak dikenal: f_translate'' ''call-3''],
        [\<lparr>kata = ''inu'', arti = ''anjing'', inserted_at = ''2025-01-01 10:00:00''\<rparr>])"
    by (simp add: update_call_def unknown_call_def sample_env_def exec_call_def try_body_def
        parse_args_def f_memory_update_def lower_def lower_char_def unknown_tool_message_def)
  show ?thesis
    by (rule conjI[OF t conjI[OF a conjI[OF b
          conjI[OF c run_tool_calls_isolates_failure[OF a b c]]]]])
qed

subsection \<open>A tool that does not exist\<close>

text \<open>
  C8. A tool call reaches the loop with its arguments as a mapping. For such a call whose
  name is none of the three tool names, the loop records the text
  \<^verbatim>\<open>Tool tidak dikenal: <name>\<close> under the call's id, leaves the table as it is, and goes
  on with the remaining calls of the turn.
\<close>

theorem run_tool_calls_unknown_tool:
  assumes "call_name call \<notin> set known_tools"
      and "call_args call = ArgsDict d"
  shows "run_tool_calls env i (call # rest) db =
           (ToolMessage (''Tool tidak dikenal: '' @ call_name call) (call_id call) #
            fst (run_tool_calls env (Suc i) rest db),
            snd (run_tool_calls env (Suc i) rest db))"
proof -
  have names: "call_name call \<noteq> ''f_memory_update''" "call_name call \<noteq> ''f_memory_query''"
    "call_name call \<noteq> ''f_lookup_dictionary''"
    using assms(1) by (simp_all add: known_tools_def)
  have "parse_args env call = Inr d"
    using assms(2) by (simp add: parse_args_def)
  then have "try_body env i call db = Inr (''Tool tidak dikenal: '' @ call_name call, db)"
    unfolding try_body_def using names by (simp add: unknown_tool_message_def)
  then have "exec_call env i call db =
          (ToolMessage (''Tool tidak dikenal: '' @ call_name call) (call_id call), db)"
    unfolding exec_call_def by simp
  then show ?thesis
    unfolding run_tool_calls_Cons by simp
qed

theorem run_tool_calls_unknown_tool_witness:
  "call_name unknown_call \<notin> set known_tools
   \<and> call_args unknown_call = ArgsDict []
   \<and> ''Tool tidak dikenal: '' @ call_name unknown_call = ''Tool tidak dikenal: f_translate''
   \<and> run_tool_calls sample_env 0 [unknown_call, update_call] sample_db =
       (ToolMessage (''Tool tidak dikenal: '' @ call_name unknown_call) (call_id unknown_call) #
        fst (run_tool_calls sample_env (Suc 0) [update_call] sample_db),
        snd (run_tool_calls sample_env (Suc 0) [update_call] sample_db))"
proof -
  have h: "call_name unknown_call \<notin> set known_tools"
    by (simp add: known_tools_def unknown_call_def)
  have p: "call_args unknown_call = ArgsDict []"
    by (simp add: unknown_call_def)
  have t: "''Tool tidak dikenal: '' @ call_name unknown_call = ''Tool tidak dikenal: f_translate''"
    by (simp add: unknown_call_def)
  show ?thesis
    by (rule conjI[OF h conjI[OF p conjI[OF t run_tool_calls_unknown_tool[OF h p]]]])
qed

subsection \<open>The history\<close>

text \<open>
  C9. Every history a session can reach begins with exactly one system message: the
  system prompt is its first message and none of the messages after it is a system
  message. The history is created with the system prompt first, and a chat turn (whether
  it returns or is left by an exception) and the random-vocabulary shortcut only append
  user, assistant and tool-result messages.
\<close>

theorem reachable_one_system_message_first:
  assumes "reachable stored" and "stored = Some ms"
  shows "one_system_message_first ms"
proof -
  have "\<forall>ms. stored = Some ms \<longrightarrow> one_system_message_first ms"
    using assms(1)
  proof (induction rule: reachable.induct)
    case fresh
    then show ?case by simp
  next
    case (init stored)
    then show ?case by (simp add: one_system_message_first_init)
  next
    case (chat ms env prompt db)
    obtain added where
      "messages (session_after (handle_chat_input env prompt \<lparr>messages = ms, memory = db\<rparr>)) =
         ms @ added" and "list_all (\<lambda>m. \<not> is_system m) added"
      using handle_chat_input_appends[of env prompt "\<lparr>messages = ms, memory = db\<rparr>"] by auto
    then show ?case
      using chat.IH by (simp add: one_system_message_first_append)
  next
    case (random stored rnd db ms')
    obtain added where "ms' = init_messages stored @ added"
      and "list_all (\<lambda>m. \<not> is_system m) added"
      using handle_random_vocabulary_appends[OF random.hyps(2)] by blast
    then show ?case
      using random.IH by (simp add: one_system_message_first_append one_system_message_first_init)
  qed
  then show ?thesis
    using assms(2) by simp
qed

theorem reachable_one_system_message_first_witness:
  "reachable (Some (messages (session_after
      (handle_chat_input offline_env ''Apa arti neko?''
         \<lparr>messages = init_messages None, memory = []\<rparr>))))
   \<and> one_system_message_first (messages (session_after
      (handle_chat_input offline_env ''Apa arti neko?''
         \<lparr>messages = init_messages None, memory = []\<rparr>)))"
proof -
  have r: "reachable (Some (messages (session_after
      (handle_chat_input offline_env ''Apa arti neko?''
         \<lparr>messages = init_messages None, memory = []\<rparr>))))"
    by (rule reachable.chat[OF reachable.init[OF reachable.fresh]])
  show ?thesis
    by (rule conjI[OF r reachable_one_system_message_first[OF r refl]])
qed

end
